theory Spec2Isabelle
  imports Main "HOL-Library.Sublist" "HOL-Library.Multiset"
begin

section \<open>bauh.api.paths\<close>

text \<open>
  The module computes its constants once, at import, from four things it does not define:
  \<^verbatim>\<open>user.is_root()\<close> (of \<^verbatim>\<open>bauh.api.user\<close>), \<^verbatim>\<open>Path.home()\<close>,
  \<^verbatim>\<open>getpass.getuser()\<close> and \<^verbatim>\<open>bauh.__app_name__\<close>. They are the fields of the
  process environment below; each constant is a function of it.
\<close>

record process_env =
  is_root :: bool
  home :: string
  getuser :: string
  app_name :: string

definition CACHE_PATH :: "process_env \<Rightarrow> string" where
  "CACHE_PATH e =
     (if is_root e then ''/var/cache/'' @ app_name e else home e @ ''/.cache/'' @ app_name e)"

definition CONFIG_DIR :: "process_env \<Rightarrow> string" where
  "CONFIG_DIR e =
     (if is_root e then ''/etc/'' @ app_name e else home e @ ''/.config/'' @ app_name e)"

definition USER_THEMES_PATH :: "process_env \<Rightarrow> string" where
  "USER_THEMES_PATH e = home e @ ''/.local/share/bauh/themes''"

definition DESKTOP_ENTRIES_DIR :: "process_env \<Rightarrow> string" where
  "DESKTOP_ENTRIES_DIR e = home e @ ''/.local/share/applications''"

definition TEMP_DIR :: "process_env \<Rightarrow> string" where
  "TEMP_DIR e = ''/tmp/'' @ app_name e @ ''@'' @ getuser e"

definition LOGS_DIR :: "process_env \<Rightarrow> string" where
  "LOGS_DIR e = TEMP_DIR e @ ''/logs''"

definition AUTOSTART_DIR :: "process_env \<Rightarrow> string" where
  "AUTOSTART_DIR e =
     (if is_root e then ''/etc/xdg/autostart'' else home e @ ''/.config/autostart'')"


section \<open>Python values and errors\<close>

text \<open>
  The exceptions the modelled code can raise. None of them comes from a \<^verbatim>\<open>raise\<close>
  statement: an import of a name a module does not bind, an index past the end of a list and
  the hash of an unhashable value raise them.
\<close>

datatype py_error = ImportError | IndexError | TypeError

text \<open>
  The values an attribute holds in this model: None, booleans, integers, strings, lists and
  references to other objects (a SoftwareManager, say), which Python compares and hashes by
  identity.
\<close>

datatype pyval =
    PyNone
  | PyBool bool
  | PyInt int
  | PyStr string
  | PyList "pyval list"
  | PyRef nat

text \<open>Python's \<^verbatim>\<open>==\<close> on these values; a bool is the integer 0 or 1.\<close>

fun py_eq :: "pyval \<Rightarrow> pyval \<Rightarrow> bool" where
  "py_eq PyNone PyNone = True"
| "py_eq (PyBool a) (PyBool b) = (a = b)"
| "py_eq (PyBool a) (PyInt j) = ((if a then 1 else 0) = j)"
| "py_eq (PyInt i) (PyBool b) = (i = (if b then 1 else 0))"
| "py_eq (PyInt i) (PyInt j) = (i = j)"
| "py_eq (PyStr s) (PyStr t) = (s = t)"
| "py_eq (PyList xs) (PyList ys) = list_all2 py_eq xs ys"
| "py_eq (PyRef m) (PyRef n) = (m = n)"
| "py_eq _ _ = False"

text \<open>
  The builtin \<^verbatim>\<open>hash\<close>: a list is unhashable (TypeError); for every other value the
  interpreter gives an integer, which depends on the process (string hashes are salted,
  object hashes come from addresses) and is the parameter \<open>h\<close>.
\<close>

fun hashable :: "pyval \<Rightarrow> bool" where
  "hashable (PyList xs) = False"
| "hashable v = True"

definition py_hash :: "(pyval \<Rightarrow> int) \<Rightarrow> pyval \<Rightarrow> py_error + int" where
  "py_hash h v = (if hashable v then Inr (h v) else Inl TypeError)"

text \<open>
  \<^verbatim>\<open>sum(hash(v) for v in values)\<close>: the builtin \<^verbatim>\<open>sum\<close> starts from 0 and adds from
  left to right; the first unhashable value ends it with the TypeError.
\<close>

fun py_sum_hashes :: "(pyval \<Rightarrow> int) \<Rightarrow> int \<Rightarrow> pyval list \<Rightarrow> py_error + int" where
  "py_sum_hashes h acc [] = Inr acc"
| "py_sum_hashes h acc (v # vs) =
     (case py_hash h v of Inl e \<Rightarrow> Inl e | Inr x \<Rightarrow> py_sum_hashes h (acc + x) vs)"

text \<open>
  An instance's \<^verbatim>\<open>__dict__\<close>: attribute names and values in the order of their first
  assignment. Assigning an attribute that exists replaces its value in place.
\<close>

type_synonym pydict = "(string \<times> pyval) list"

fun setattr :: "pydict \<Rightarrow> string \<Rightarrow> pyval \<Rightarrow> pydict" where
  "setattr [] k v = [(k, v)]"
| "setattr ((k', v') # d) k v = (if k' = k then (k, v) # d else (k', v') # setattr d k v)"

definition dict_values :: "pydict \<Rightarrow> pyval list" where
  "dict_values d = map snd d"

text \<open>
  \<^verbatim>\<open>d1 == d2\<close> on dicts: the same number of keys, and every key of the first is a key of
  the second with an equal value. The order of the keys plays no part.
\<close>

definition dict_eq :: "pydict \<Rightarrow> pydict \<Rightarrow> bool" where
  "dict_eq d1 d2 =
     (length d1 = length d2 \<and>
      list_all (\<lambda>(k, v). case map_of d2 k of None \<Rightarrow> False | Some w \<Rightarrow> py_eq v w) d1)"

text \<open>\<^verbatim>\<open>s.split(sep)\<close> for a one-character separator, and \<^verbatim>\<open>xs[i]\<close> for \<open>i \<ge> 0\<close>.\<close>

fun str_split :: "char \<Rightarrow> string \<Rightarrow> string \<Rightarrow> string list" where
  "str_split sep piece [] = [rev piece]"
| "str_split sep piece (c # cs) =
     (if c = sep then rev piece # str_split sep [] cs else str_split sep (c # piece) cs)"

definition py_index :: "'a list \<Rightarrow> nat \<Rightarrow> py_error + 'a" where
  "py_index xs i = (if i < length xs then Inr (xs ! i) else Inl IndexError)"

text \<open>
  \<^verbatim>\<open>from module import name\<close>: the name is looked up among the names the module binds.
\<close>

definition import_from :: "(string \<times> 'a) list \<Rightarrow> string \<Rightarrow> py_error + 'a" where
  "import_from namespace n =
     (case map_of namespace n of None \<Rightarrow> Inl ImportError | Some v \<Rightarrow> Inr v)"

text \<open>
  The string constants that \<^verbatim>\<open>bauh/api/paths.py\<close> binds, in the order of the file. The
  other names of the module (\<^verbatim>\<open>getuser\<close>, \<^verbatim>\<open>Path\<close>, \<^verbatim>\<open>user\<close> and the attributes
  every module has) are not strings and are left out.
\<close>

definition paths_module :: "process_env \<Rightarrow> (string \<times> string) list" where
  "paths_module e =
     [(''__app_name__'', app_name e),
      (''CACHE_PATH'', CACHE_PATH e), (''CONFIG_DIR'', CONFIG_DIR e),
      (''USER_THEMES_PATH'', USER_THEMES_PATH e),
      (''DESKTOP_ENTRIES_DIR'', DESKTOP_ENTRIES_DIR e), (''TEMP_DIR'', TEMP_DIR e),
      (''LOGS_DIR'', LOGS_DIR e), (''AUTOSTART_DIR'', AUTOSTART_DIR e)]"


section \<open>bauh.api.abstract.model\<close>

subsection \<open>SuggestionPriority\<close>

datatype SuggestionPriority = LOW | MEDIUM | HIGH | TOP

fun value_of :: "SuggestionPriority \<Rightarrow> int" where
  "value_of LOW = 0"
| "value_of MEDIUM = 1"
| "value_of HIGH = 2"
| "value_of TOP = 3"

text \<open>
  The objects a method of this module can meet as its \<^verbatim>\<open>other\<close> argument: instances of
  the module's classes (a CustomSoftwareAction and a PackageUpdate are their
  \<^verbatim>\<open>__dict__\<close>) and plain values.
\<close>

type_synonym CustomSoftwareAction = pydict
type_synonym PackageUpdate = pydict

datatype pyobject =
    Action CustomSoftwareAction
  | Update PackageUpdate
  | Priority SuggestionPriority
  | Plain pyval

text \<open>
  What a comparison method hands back: a boolean, None (the method ran off its end), or
  NotImplemented, on which the interpreter asks the other operand.
\<close>

datatype cmp_result = RBool bool | RNone | RNotImplemented

fun isinstance_SuggestionPriority :: "pyobject \<Rightarrow> bool" where
  "isinstance_SuggestionPriority (Priority q) = True"
| "isinstance_SuggestionPriority x = False"

fun SuggestionPriority_gt :: "SuggestionPriority \<Rightarrow> pyobject \<Rightarrow> cmp_result" where
  "SuggestionPriority_gt self (Priority other) = RBool (value_of self > value_of other)"
| "SuggestionPriority_gt self other = RNone"

fun SuggestionPriority_lt :: "SuggestionPriority \<Rightarrow> pyobject \<Rightarrow> cmp_result" where
  "SuggestionPriority_lt self (Priority other) = RBool (value_of self < value_of other)"
| "SuggestionPriority_lt self other = RNone"

text \<open>
  The expressions \<^verbatim>\<open>p > x\<close> and \<^verbatim>\<open>p < x\<close> for a priority \<open>p\<close>: the interpreter
  calls the method of \<open>p\<close> and turns to the reflected method of \<open>x\<close>, whose outcome is
  the parameter \<open>reflected\<close>, only on NotImplemented.
\<close>

definition op_gt :: "SuggestionPriority \<Rightarrow> pyobject \<Rightarrow> cmp_result \<Rightarrow> cmp_result" where
  "op_gt p x reflected =
     (case SuggestionPriority_gt p x of RNotImplemented \<Rightarrow> reflected | r \<Rightarrow> r)"

definition op_lt :: "SuggestionPriority \<Rightarrow> pyobject \<Rightarrow> cmp_result \<Rightarrow> cmp_result" where
  "op_lt p x reflected =
     (case SuggestionPriority_lt p x of RNotImplemented \<Rightarrow> reflected | r \<Rightarrow> r)"

subsection \<open>CustomSoftwareAction\<close>

definition CustomSoftwareAction_init ::
  "pyval \<Rightarrow> pyval \<Rightarrow> pyval \<Rightarrow> pyval \<Rightarrow> pyval \<Rightarrow> pyval \<Rightarrow> pyval \<Rightarrow> pyval \<Rightarrow> pyval \<Rightarrow> pyval \<Rightarrow>
   pyval \<Rightarrow> pyval \<Rightarrow> CustomSoftwareAction" where
  "CustomSoftwareAction_init i18n_label_key i18n_status_key icon_path manager_method
     requires_root manager backup refresh i18n_confirm_key requires_internet
     requires_confirmation i18n_description_key =
   foldl (\<lambda>d (k, v). setattr d k v) []
     [(''i18n_label_key'', i18n_label_key),
      (''i18n_status_key'', i18n_status_key),
      (''icon_path'', icon_path),
      (''manager_method'', manager_method),
      (''requires_root'', requires_root),
      (''manager'', manager),
      (''backup'', backup),
      (''refresh'', refresh),
      (''i18n_confirm_key'', i18n_confirm_key),
      (''requires_internet'', requires_internet),
      (''requires_confirmation'', requires_confirmation),
      (''i18n_description_key'', i18n_description_key)]"

definition CustomSoftwareAction_hash :: "(pyval \<Rightarrow> int) \<Rightarrow> CustomSoftwareAction \<Rightarrow> py_error + int" where
  "CustomSoftwareAction_hash h self = py_sum_hashes h 0 (dict_values self)"

fun CustomSoftwareAction_eq :: "CustomSoftwareAction \<Rightarrow> pyobject \<Rightarrow> bool" where
  "CustomSoftwareAction_eq self (Action other) = dict_eq self other"
| "CustomSoftwareAction_eq self other = False"

subsection \<open>PackageStatus and SoftwarePackage\<close>

datatype PackageStatus = READY | LOADING_DATA

text \<open>
  The attributes have the types of the constructor's annotations; an argument whose default
  is None is optional. The HOL constants \<open>id\<close> and \<open>size\<close> keep their names, so the
  attributes of these names carry a suffix.
\<close>

record SoftwarePackage =
  id_attr :: "string option"
  name :: "string option"
  description :: "string option"
  status :: PackageStatus
  version :: "string option"
  latest_version :: "string option"
  icon_url :: "string option"
  installed :: bool
  update :: bool
  size_attr :: "int option"
  categories :: "string list option"
  license :: "string option"
  gem_name :: string

text \<open>
  The class is abstract: an instance belongs to a subclass that implements the abstract
  methods. The two of them that this module's own methods call are the fields of
  \<open>concrete_methods\<close>.
\<close>

record concrete_methods =
  get_type :: "SoftwarePackage \<Rightarrow> string"
  is_application :: "SoftwarePackage \<Rightarrow> bool"

text \<open>
  The constructor; \<open>module\<close> is \<^verbatim>\<open>self.__module__\<close>, the dotted name of the module
  that defines the instance's class.
\<close>

definition SoftwarePackage_init ::
  "string \<Rightarrow> string option \<Rightarrow> string option \<Rightarrow> string option \<Rightarrow> string option \<Rightarrow>
   string option \<Rightarrow> string option \<Rightarrow> PackageStatus \<Rightarrow> bool \<Rightarrow> bool \<Rightarrow> int option \<Rightarrow>
   string list option \<Rightarrow> string option \<Rightarrow> py_error + SoftwarePackage" where
  "SoftwarePackage_init module id' version' name' description' latest_version' icon_url'
     status' installed' update' size' categories' license' =
   (case py_index (str_split (CHR ''.'') [] module) 2 of
      Inl e \<Rightarrow> Inl e
    | Inr g \<Rightarrow>
        Inr \<lparr>id_attr = id', name = name', description = description', status = status',
             version = version', latest_version = latest_version', icon_url = icon_url',
             installed = installed', update = update', size_attr = size',
             categories = categories', license = license', gem_name = g\<rparr>)"

definition can_be_uninstalled :: "SoftwarePackage \<Rightarrow> bool" where
  "can_be_uninstalled self = installed self"

definition can_be_installed :: "SoftwarePackage \<Rightarrow> bool" where
  "can_be_installed self = (\<not> installed self)"

definition is_update_ignored :: "SoftwarePackage \<Rightarrow> bool" where
  "is_update_ignored self = False"

definition supports_ignored_updates :: "SoftwarePackage \<Rightarrow> bool" where
  "supports_ignored_updates self = False"

definition supports_disk_cache :: "concrete_methods \<Rightarrow> SoftwarePackage \<Rightarrow> bool" where
  "supports_disk_cache sub self = (installed self \<and> is_application sub self)"

text \<open>
  \<open>CACHE_DIR\<close> is the module's global of that name, which
  \<^verbatim>\<open>from bauh.api.paths import CACHE_DIR\<close> is to bind; it is a parameter here.
\<close>

definition get_disk_cache_path :: "string \<Rightarrow> concrete_methods \<Rightarrow> SoftwarePackage \<Rightarrow> string" where
  "get_disk_cache_path CACHE_DIR sub self = CACHE_DIR @ ''/'' @ get_type sub self"

definition can_be_updated :: "SoftwarePackage \<Rightarrow> bool" where
  "can_be_updated self = (installed self \<and> update self)"

text \<open>A method that runs off its end returns None; a string is true when it is not empty.\<close>

definition get_disk_icon_path :: "string \<Rightarrow> concrete_methods \<Rightarrow> SoftwarePackage \<Rightarrow> string option" where
  "get_disk_icon_path CACHE_DIR sub self =
     (let path = get_disk_cache_path CACHE_DIR sub self
      in if path \<noteq> [] then Some (path @ ''/icon.png'') else None)"

definition get_disk_data_path :: "string \<Rightarrow> concrete_methods \<Rightarrow> SoftwarePackage \<Rightarrow> string option" where
  "get_disk_data_path CACHE_DIR sub self =
     (let path = get_disk_cache_path CACHE_DIR sub self
      in if path \<noteq> [] then Some (path @ ''/data.json'') else None)"

text \<open>
  The two definitions above are the methods on an instance whose class inherits
  \<open>get_disk_cache_path\<close>. The call \<^verbatim>\<open>self.get_disk_cache_path()\<close> is resolved in the class
  of the instance, and a subclass may override the method; its override may return None or
  any string, the empty one included. The methods for either kind of class follow:
  \<open>call_get_disk_cache_path\<close> is the call, and the guard \<^verbatim>\<open>if path:\<close> fails on None and
  on the empty string.
\<close>

datatype disk_cache_path_method =
    Inherited
  | Overridden "SoftwarePackage \<Rightarrow> string option"

definition call_get_disk_cache_path ::
  "disk_cache_path_method \<Rightarrow> string \<Rightarrow> concrete_methods \<Rightarrow> SoftwarePackage \<Rightarrow> string option" where
  "call_get_disk_cache_path m CACHE_DIR sub self =
     (case m of
        Inherited \<Rightarrow> Some (get_disk_cache_path CACHE_DIR sub self)
      | Overridden f \<Rightarrow> f self)"

definition get_disk_icon_path_of ::
  "disk_cache_path_method \<Rightarrow> string \<Rightarrow> concrete_methods \<Rightarrow> SoftwarePackage \<Rightarrow> string option" where
  "get_disk_icon_path_of m CACHE_DIR sub self =
     (case call_get_disk_cache_path m CACHE_DIR sub self of
        None \<Rightarrow> None
      | Some path \<Rightarrow> if path \<noteq> [] then Some (path @ ''/icon.png'') else None)"

definition get_disk_data_path_of ::
  "disk_cache_path_method \<Rightarrow> string \<Rightarrow> concrete_methods \<Rightarrow> SoftwarePackage \<Rightarrow> string option" where
  "get_disk_data_path_of m CACHE_DIR sub self =
     (case call_get_disk_cache_path m CACHE_DIR sub self of
        None \<Rightarrow> None
      | Some path \<Rightarrow> if path \<noteq> [] then Some (path @ ''/data.json'') else None)"

definition is_trustable :: "SoftwarePackage \<Rightarrow> bool" where
  "is_trustable self = False"

definition has_screenshots :: "SoftwarePackage \<Rightarrow> bool" where
  "has_screenshots self = (\<not> installed self)"

definition get_name_tooltip :: "SoftwarePackage \<Rightarrow> string option" where
  "get_name_tooltip self = name self"

definition get_display_name :: "SoftwarePackage \<Rightarrow> string option" where
  "get_display_name self = name self"

subsection \<open>PackageUpdate\<close>

definition PackageUpdate_init :: "pyval \<Rightarrow> pyval \<Rightarrow> pyval \<Rightarrow> pyval \<Rightarrow> PackageUpdate" where
  "PackageUpdate_init pkg_id version' pkg_type name' =
   foldl (\<lambda>d (k, v). setattr d k v) []
     [(''id'', pkg_id), (''name'', name'), (''version'', version'), (''type'', pkg_type)]"

fun PackageUpdate_eq :: "PackageUpdate \<Rightarrow> pyobject \<Rightarrow> bool" where
  "PackageUpdate_eq self (Update other) = dict_eq self other"
| "PackageUpdate_eq self other = False"

definition PackageUpdate_hash :: "(pyval \<Rightarrow> int) \<Rightarrow> PackageUpdate \<Rightarrow> py_error + int" where
  "PackageUpdate_hash h self = py_sum_hashes h 0 (dict_values self)"

subsection \<open>PackageHistory and PackageSuggestion\<close>

record PackageHistory =
  pkg :: SoftwarePackage
  history :: "pydict list"
  pkg_status_idx :: int

definition PackageHistory_init :: "SoftwarePackage \<Rightarrow> pydict list \<Rightarrow> int \<Rightarrow> PackageHistory" where
  "PackageHistory_init pkg' history' pkg_status_idx' =
     \<lparr>pkg = pkg', history = history', pkg_status_idx = pkg_status_idx'\<rparr>"

definition empyt :: "SoftwarePackage \<Rightarrow> PackageHistory" where
  "empyt pkg' = PackageHistory_init pkg' [] (- 1)"

record PackageSuggestion =
  package :: SoftwarePackage
  priority :: SuggestionPriority


section \<open>Properties of the path constants\<close>

lemma CACHE_PATH_root: "CACHE_PATH (e\<lparr>is_root := True\<rparr>) = ''/var/cache/'' @ app_name e"
  by (simp add: CACHE_PATH_def)

lemma CACHE_PATH_user: "CACHE_PATH (e\<lparr>is_root := False\<rparr>) = home e @ ''/.cache/'' @ app_name e"
  by (simp add: CACHE_PATH_def)

lemma CONFIG_DIR_root: "CONFIG_DIR (e\<lparr>is_root := True\<rparr>) = ''/etc/'' @ app_name e"
  by (simp add: CONFIG_DIR_def)

lemma CONFIG_DIR_user: "CONFIG_DIR (e\<lparr>is_root := False\<rparr>) = home e @ ''/.config/'' @ app_name e"
  by (simp add: CONFIG_DIR_def)

lemma AUTOSTART_DIR_root: "AUTOSTART_DIR (e\<lparr>is_root := True\<rparr>) = ''/etc/xdg/autostart''"
  by (simp add: AUTOSTART_DIR_def)

lemma AUTOSTART_DIR_user: "AUTOSTART_DIR (e\<lparr>is_root := False\<rparr>) = home e @ ''/.config/autostart''"
  by (simp add: AUTOSTART_DIR_def)

lemma themes_ignore_root: "USER_THEMES_PATH (e\<lparr>is_root := b\<rparr>) = USER_THEMES_PATH e"
  by (simp add: USER_THEMES_PATH_def)

lemma desktop_entries_ignore_root: "DESKTOP_ENTRIES_DIR (e\<lparr>is_root := b\<rparr>) = DESKTOP_ENTRIES_DIR e"
  by (simp add: DESKTOP_ENTRIES_DIR_def)

lemma temp_ignores_root_and_home:
  "TEMP_DIR (e\<lparr>is_root := b\<rparr>) = TEMP_DIR e" "TEMP_DIR (e\<lparr>home := h\<rparr>) = TEMP_DIR e"
  by (simp_all add: TEMP_DIR_def)

lemma logs_ignore_root_and_home:
  "LOGS_DIR (e\<lparr>is_root := b\<rparr>) = LOGS_DIR e" "LOGS_DIR (e\<lparr>home := h\<rparr>) = LOGS_DIR e"
  by (simp_all add: LOGS_DIR_def temp_ignores_root_and_home)

text \<open>
  C1, as stated, fails. For an ordinary user alice with home /home/alice the temp and logs
  directories are /tmp/bauh@alice and /tmp/bauh@alice/logs, which are not below the home
  directory; and for root (home /root) the themes and desktop-entries directories are still
  below the home directory, exactly as for any other user.
\<close>

theorem C1_not_all_paths_switch:
  "\<not> is_root \<lparr>is_root = False, home = ''/home/alice'', getuser = ''alice'', app_name = ''bauh''\<rparr>
   \<and> TEMP_DIR \<lparr>is_root = False, home = ''/home/alice'', getuser = ''alice'', app_name = ''bauh''\<rparr>
       = ''/tmp/bauh@alice''
   \<and> \<not> prefix ''/home/alice''
         (TEMP_DIR \<lparr>is_root = False, home = ''/home/alice'', getuser = ''alice'', app_name = ''bauh''\<rparr>)
   \<and> \<not> prefix ''/home/alice''
         (LOGS_DIR \<lparr>is_root = False, home = ''/home/alice'', getuser = ''alice'', app_name = ''bauh''\<rparr>)
   \<and> is_root \<lparr>is_root = True, home = ''/root'', getuser = ''root'', app_name = ''bauh''\<rparr>
   \<and> USER_THEMES_PATH \<lparr>is_root = True, home = ''/root'', getuser = ''root'', app_name = ''bauh''\<rparr>
       = ''/root/.local/share/bauh/themes''
   \<and> DESKTOP_ENTRIES_DIR \<lparr>is_root = True, home = ''/root'', getuser = ''root'', app_name = ''bauh''\<rparr>
       = ''/root/.local/share/applications''"
  by (simp add: TEMP_DIR_def LOGS_DIR_def USER_THEMES_PATH_def DESKTOP_ENTRIES_DIR_def)

text \<open>The three constants that test the effective user never agree for root and another user.\<close>

lemma CACHE_PATH_switches:
  "CACHE_PATH (e\<lparr>is_root := True\<rparr>) \<noteq> CACHE_PATH (e\<lparr>is_root := False\<rparr>)"
proof
  assume "CACHE_PATH (e\<lparr>is_root := True\<rparr>) = CACHE_PATH (e\<lparr>is_root := False\<rparr>)"
  then have "''/var/cache/'' @ app_name e = (home e @ ''/.cache/'') @ app_name e"
    by (simp add: CACHE_PATH_def)
  then have "''/var/cache/'' = home e @ ''/.cache/''"
    by (simp only: append_same_eq)
  then have "rev ''/var/cache/'' = rev ''/.cache/'' @ rev (home e)"
    by (simp only: rev_append)
  then show False
    by simp
qed

lemma CONFIG_DIR_switches:
  "CONFIG_DIR (e\<lparr>is_root := True\<rparr>) \<noteq> CONFIG_DIR (e\<lparr>is_root := False\<rparr>)"
proof
  assume "CONFIG_DIR (e\<lparr>is_root := True\<rparr>) = CONFIG_DIR (e\<lparr>is_root := False\<rparr>)"
  then have "''/etc/'' @ app_name e = (home e @ ''/.config/'') @ app_name e"
    by (simp add: CONFIG_DIR_def)
  then have "''/etc/'' = home e @ ''/.config/''"
    by (simp only: append_same_eq)
  then have "rev ''/etc/'' = rev ''/.config/'' @ rev (home e)"
    by (simp only: rev_append)
  then show False
    by simp
qed

lemma AUTOSTART_DIR_switches:
  "AUTOSTART_DIR (e\<lparr>is_root := True\<rparr>) \<noteq> AUTOSTART_DIR (e\<lparr>is_root := False\<rparr>)"
proof
  assume "AUTOSTART_DIR (e\<lparr>is_root := True\<rparr>) = AUTOSTART_DIR (e\<lparr>is_root := False\<rparr>)"
  then have "''/etc/xdg/autostart'' = home e @ ''/.config/autostart''"
    by (simp add: AUTOSTART_DIR_def)
  then have "rev ''/etc/xdg/autostart'' = rev ''/.config/autostart'' @ rev (home e)"
    by (simp only: rev_append)
  then show False
    by simp
qed

lemma home_and_tmp_paths:
  "USER_THEMES_PATH e = home e @ ''/.local/share/bauh/themes''"
  "DESKTOP_ENTRIES_DIR e = home e @ ''/.local/share/applications''"
  "TEMP_DIR e = ''/tmp/'' @ app_name e @ ''@'' @ getuser e"
  "LOGS_DIR e = ''/tmp/'' @ app_name e @ ''@'' @ getuser e @ ''/logs''"
  by (simp_all add: USER_THEMES_PATH_def DESKTOP_ENTRIES_DIR_def TEMP_DIR_def LOGS_DIR_def)

text \<open>
  C1, amended. Only CACHE_PATH, CONFIG_DIR and AUTOSTART_DIR test the effective user: for
  root they are the system paths /var/cache/<app>, /etc/<app> and /etc/xdg/autostart, which
  do not mention the home directory, and for any other user they are <home>/.cache/<app>,
  <home>/.config/<app> and <home>/.config/autostart, below the home directory and never
  the root's value. USER_THEMES_PATH and DESKTOP_ENTRIES_DIR are
  <home>/.local/share/bauh/themes and <home>/.local/share/applications whoever the user
  is, and TEMP_DIR and LOGS_DIR are /tmp/<app>@<user> and /tmp/<app>@<user>/logs, whatever
  the effective user and the home directory are.
\<close>

theorem C1_paths_by_effective_user:
  "CACHE_PATH (e\<lparr>is_root := True\<rparr>) = ''/var/cache/'' @ app_name e
   \<and> CONFIG_DIR (e\<lparr>is_root := True\<rparr>) = ''/etc/'' @ app_name e
   \<and> AUTOSTART_DIR (e\<lparr>is_root := True\<rparr>) = ''/etc/xdg/autostart''
   \<and> prefix (home e) (CACHE_PATH (e\<lparr>is_root := False\<rparr>))
   \<and> prefix (home e) (CONFIG_DIR (e\<lparr>is_root := False\<rparr>))
   \<and> prefix (home e) (AUTOSTART_DIR (e\<lparr>is_root := False\<rparr>))
   \<and> USER_THEMES_PATH (e\<lparr>is_root := b\<rparr>) = USER_THEMES_PATH e
   \<and> DESKTOP_ENTRIES_DIR (e\<lparr>is_root := b\<rparr>) = DESKTOP_ENTRIES_DIR e
   \<and> prefix (home e) (USER_THEMES_PATH e)
   \<and> prefix (home e) (DESKTOP_ENTRIES_DIR e)
   \<and> TEMP_DIR (e\<lparr>is_root := b\<rparr>) = TEMP_DIR e
   \<and> TEMP_DIR (e\<lparr>home := h\<rparr>) = TEMP_DIR e
   \<and> LOGS_DIR (e\<lparr>is_root := b\<rparr>) = LOGS_DIR e
   \<and> LOGS_DIR (e\<lparr>home := h\<rparr>) = LOGS_DIR e
   \<and> prefix ''/tmp/'' (TEMP_DIR e)
   \<and> prefix (TEMP_DIR e) (LOGS_DIR e)
   \<and> CACHE_PATH (e\<lparr>is_root := False\<rparr>) = home e @ ''/.cache/'' @ app_name e
   \<and> CONFIG_DIR (e\<lparr>is_root := False\<rparr>) = home e @ ''/.config/'' @ app_name e
   \<and> AUTOSTART_DIR (e\<lparr>is_root := False\<rparr>) = home e @ ''/.config/autostart''
   \<and> CACHE_PATH (e\<lparr>is_root := True\<rparr>) \<noteq> CACHE_PATH (e\<lparr>is_root := False\<rparr>)
   \<and> CONFIG_DIR (e\<lparr>is_root := True\<rparr>) \<noteq> CONFIG_DIR (e\<lparr>is_root := False\<rparr>)
   \<and> AUTOSTART_DIR (e\<lparr>is_root := True\<rparr>) \<noteq> AUTOSTART_DIR (e\<lparr>is_root := False\<rparr>)
   \<and> USER_THEMES_PATH e = home e @ ''/.local/share/bauh/themes''
   \<and> DESKTOP_ENTRIES_DIR e = home e @ ''/.local/share/applications''
   \<and> TEMP_DIR e = ''/tmp/'' @ app_name e @ ''@'' @ getuser e
   \<and> LOGS_DIR e = ''/tmp/'' @ app_name e @ ''@'' @ getuser e @ ''/logs''"
proof -
  have user_paths:
    "prefix (home e) (CACHE_PATH (e\<lparr>is_root := False\<rparr>))"
    "prefix (home e) (CONFIG_DIR (e\<lparr>is_root := False\<rparr>))"
    "prefix (home e) (AUTOSTART_DIR (e\<lparr>is_root := False\<rparr>))"
    by (simp_all add: CACHE_PATH_user CONFIG_DIR_user AUTOSTART_DIR_user)
  have home_paths:
    "prefix (home e) (USER_THEMES_PATH e)" "prefix (home e) (DESKTOP_ENTRIES_DIR e)"
    by (simp_all add: USER_THEMES_PATH_def DESKTOP_ENTRIES_DIR_def)
  have tmp_paths: "prefix ''/tmp/'' (TEMP_DIR e)" "prefix (TEMP_DIR e) (LOGS_DIR e)"
    by (simp_all add: TEMP_DIR_def LOGS_DIR_def)
  show ?thesis
    by (intro conjI CACHE_PATH_root CONFIG_DIR_root AUTOSTART_DIR_root user_paths
        themes_ignore_root desktop_entries_ignore_root home_paths temp_ignores_root_and_home
        logs_ignore_root_and_home tmp_paths CACHE_PATH_user CONFIG_DIR_user
        AUTOSTART_DIR_user CACHE_PATH_switches CONFIG_DIR_switches AUTOSTART_DIR_switches
        home_and_tmp_paths)
qed


section \<open>Properties of the default predicates of SoftwarePackage\<close>

text \<open>
  C2. For every package, \<open>can_be_uninstalled\<close> is the installed flag, \<open>can_be_installed\<close>
  is its negation, and \<open>can_be_updated\<close> is the conjunction of the installed and the update
  flag.
\<close>

theorem C2_lifecycle_predicates:
  "can_be_uninstalled self = installed self
   \<and> can_be_installed self = (\<not> installed self)
   \<and> can_be_updated self = (installed self \<and> update self)"
  by (simp add: can_be_uninstalled_def can_be_installed_def can_be_updated_def)

text \<open>
  C9. The default \<open>has_screenshots\<close> is the negation of the installed flag, so an installed
  package reports no screenshots; the default \<open>supports_disk_cache\<close> is the conjunction of
  the installed flag and the subclass's \<open>is_application\<close>.
\<close>

theorem C9_default_predicates:
  "has_screenshots self = (\<not> installed self)
   \<and> (installed self \<longrightarrow> \<not> has_screenshots self)
   \<and> supports_disk_cache sub self = (installed self \<and> is_application sub self)"
  by (simp add: has_screenshots_def supports_disk_cache_def)

text \<open>C9 at an installed package of the gem arch.\<close>

theorem C9_default_predicates_witness:
  "installed \<lparr>id_attr = None, name = None, description = None, status = READY, version = None,
      latest_version = None, icon_url = None, installed = True, update = False,
      size_attr = None, categories = None, license = None, gem_name = ''arch''\<rparr>
   \<and> \<not> has_screenshots \<lparr>id_attr = None, name = None, description = None, status = READY,
      version = None, latest_version = None, icon_url = None, installed = True, update = False,
      size_attr = None, categories = None, license = None, gem_name = ''arch''\<rparr>"
  using C9_default_predicates [of "\<lparr>id_attr = None, name = None, description = None,
      status = READY, version = None, latest_version = None, icon_url = None, installed = True,
      update = False, size_attr = None, categories = None, license = None,
      gem_name = ''arch''\<rparr>"]
  by simp


section \<open>Properties of the disk cache paths\<close>

lemma get_disk_cache_path_nonempty: "get_disk_cache_path CACHE_DIR sub self \<noteq> []"
  by (simp add: get_disk_cache_path_def)

text \<open>
  The module \<^verbatim>\<open>bauh/api/paths.py\<close> binds CACHE_PATH and no CACHE_DIR, so the import of
  CACHE_DIR from it does not succeed; this is why \<open>CACHE_DIR\<close> is a parameter of the
  methods that read it.
\<close>

lemma import_CACHE_DIR: "import_from (paths_module e) ''CACHE_DIR'' = Inl ImportError"
  by (simp add: import_from_def paths_module_def)

lemma import_CACHE_PATH: "import_from (paths_module e) ''CACHE_PATH'' = Inr (CACHE_PATH e)"
  by (simp add: import_from_def paths_module_def)


text \<open>On a class that inherits \<open>get_disk_cache_path\<close> the two pairs of methods agree.\<close>

lemma get_disk_paths_of_Inherited:
  "get_disk_icon_path_of Inherited CACHE_DIR sub self = get_disk_icon_path CACHE_DIR sub self"
  "get_disk_data_path_of Inherited CACHE_DIR sub self = get_disk_data_path CACHE_DIR sub self"
  by (simp_all add: get_disk_icon_path_of_def get_disk_data_path_of_def
      call_get_disk_cache_path_def get_disk_icon_path_def get_disk_data_path_def)

lemma get_disk_icon_path_of_None:
  "(get_disk_icon_path_of m CACHE_DIR sub self = None) =
     (call_get_disk_cache_path m CACHE_DIR sub self = None
      \<or> call_get_disk_cache_path m CACHE_DIR sub self = Some [])"
  by (simp add: get_disk_icon_path_of_def split: option.split)

lemma get_disk_data_path_of_None:
  "(get_disk_data_path_of m CACHE_DIR sub self = None) =
     (call_get_disk_cache_path m CACHE_DIR sub self = None
      \<or> call_get_disk_cache_path m CACHE_DIR sub self = Some [])"
  by (simp add: get_disk_data_path_of_def split: option.split)

text \<open>
  C8, as stated, fails. The two methods call \<^verbatim>\<open>self.get_disk_cache_path()\<close>, which a
  subclass can override. On a package of a subclass whose override returns None, and on one
  whose override returns the empty string, the guard fails and both methods return None.
\<close>

theorem C8_override_reaches_guard:
  "get_disk_icon_path_of (Overridden (\<lambda>s. None)) ''/home/alice/.cache/bauh''
     \<lparr>get_type = (\<lambda>s. ''appimage''), is_application = (\<lambda>s. True)\<rparr>
     \<lparr>id_attr = None, name = None, description = None, status = READY, version = None,
      latest_version = None, icon_url = None, installed = False, update = False,
      size_attr = None, categories = None, license = None, gem_name = ''appimage''\<rparr>
     = None
   \<and> get_disk_data_path_of (Overridden (\<lambda>s. None)) ''/home/alice/.cache/bauh''
     \<lparr>get_type = (\<lambda>s. ''appimage''), is_application = (\<lambda>s. True)\<rparr>
     \<lparr>id_attr = None, name = None, description = None, status = READY, version = None,
      latest_version = None, icon_url = None, installed = False, update = False,
      size_attr = None, categories = None, license = None, gem_name = ''appimage''\<rparr>
     = None
   \<and> get_disk_icon_path_of (Overridden (\<lambda>s. Some [])) ''/home/alice/.cache/bauh''
     \<lparr>get_type = (\<lambda>s. ''appimage''), is_application = (\<lambda>s. True)\<rparr>
     \<lparr>id_attr = None, name = None, description = None, status = READY, version = None,
      latest_version = None, icon_url = None, installed = False, update = False,
      size_attr = None, categories = None, license = None, gem_name = ''appimage''\<rparr>
     = None
   \<and> get_disk_data_path_of (Overridden (\<lambda>s. Some [])) ''/home/alice/.cache/bauh''
     \<lparr>get_type = (\<lambda>s. ''appimage''), is_application = (\<lambda>s. True)\<rparr>
     \<lparr>id_attr = None, name = None, description = None, status = READY, version = None,
      latest_version = None, icon_url = None, installed = False, update = False,
      size_attr = None, categories = None, license = None, gem_name = ''appimage''\<rparr>
     = None"
  by (simp add: get_disk_icon_path_of_def get_disk_data_path_of_def
      call_get_disk_cache_path_def)

text \<open>
  C8, amended. The \<open>get_disk_cache_path\<close> of this class always contains a slash, so it is
  never empty; hence on every package whose class inherits it, \<open>get_disk_icon_path\<close> and
  \<open>get_disk_data_path\<close> never return None but the cache path followed by /icon.png and
  /data.json. On a package whose class overrides \<open>get_disk_cache_path\<close>, each of the two
  methods returns None exactly when the override returns None or the empty string, and
  otherwise the override's path followed by /icon.png and /data.json.
\<close>

theorem C8_disk_paths_None_iff:
  "get_disk_cache_path CACHE_DIR sub self \<noteq> []
   \<and> get_disk_icon_path CACHE_DIR sub self \<noteq> None
   \<and> get_disk_data_path CACHE_DIR sub self \<noteq> None
   \<and> get_disk_icon_path_of Inherited CACHE_DIR sub self
       = Some (get_disk_cache_path CACHE_DIR sub self @ ''/icon.png'')
   \<and> get_disk_data_path_of Inherited CACHE_DIR sub self
       = Some (get_disk_cache_path CACHE_DIR sub self @ ''/data.json'')
   \<and> (get_disk_icon_path_of (Overridden f) CACHE_DIR sub self = None)
       = (f self = None \<or> f self = Some [])
   \<and> (get_disk_data_path_of (Overridden f) CACHE_DIR sub self = None)
       = (f self = None \<or> f self = Some [])
   \<and> get_disk_icon_path_of (Overridden f) CACHE_DIR sub self
       = (if f self = None \<or> f self = Some [] then None
          else Some (the (f self) @ ''/icon.png''))
   \<and> get_disk_data_path_of (Overridden f) CACHE_DIR sub self
       = (if f self = None \<or> f self = Some [] then None
          else Some (the (f self) @ ''/data.json''))"
proof -
  have own: "get_disk_icon_path CACHE_DIR sub self \<noteq> None"
    "get_disk_data_path CACHE_DIR sub self \<noteq> None"
    by (simp_all add: get_disk_icon_path_def get_disk_data_path_def
        get_disk_cache_path_nonempty)
  have inherited:
    "get_disk_icon_path_of Inherited CACHE_DIR sub self
       = Some (get_disk_cache_path CACHE_DIR sub self @ ''/icon.png'')"
    "get_disk_data_path_of Inherited CACHE_DIR sub self
       = Some (get_disk_cache_path CACHE_DIR sub self @ ''/data.json'')"
    by (simp_all add: get_disk_icon_path_of_def get_disk_data_path_of_def
        call_get_disk_cache_path_def get_disk_cache_path_nonempty)
  have call: "call_get_disk_cache_path (Overridden f) CACHE_DIR sub self = f self"
    by (simp add: call_get_disk_cache_path_def)
  have none_iff:
    "(get_disk_icon_path_of (Overridden f) CACHE_DIR sub self = None)
       = (f self = None \<or> f self = Some [])"
    "(get_disk_data_path_of (Overridden f) CACHE_DIR sub self = None)
       = (f self = None \<or> f self = Some [])"
    by (simp_all only: get_disk_icon_path_of_None get_disk_data_path_of_None call)
  have overridden:
    "get_disk_icon_path_of (Overridden f) CACHE_DIR sub self
       = (if f self = None \<or> f self = Some [] then None
          else Some (the (f self) @ ''/icon.png''))"
    "get_disk_data_path_of (Overridden f) CACHE_DIR sub self
       = (if f self = None \<or> f self = Some [] then None
          else Some (the (f self) @ ''/data.json''))"
    by (cases "f self"; simp add: get_disk_icon_path_of_def get_disk_data_path_of_def call)+
  show ?thesis
    by (intro conjI get_disk_cache_path_nonempty own inherited none_iff overridden)
qed


section \<open>Properties of PackageHistory\<close>

text \<open>
  C6. For every package, \<open>empyt\<close> gives the history record of that package with the empty
  list of revisions and the index -1.
\<close>

theorem C6_empty_history:
  "pkg (empyt p) = p \<and> history (empyt p) = [] \<and> pkg_status_idx (empyt p) = - 1"
  by (simp add: empyt_def PackageHistory_init_def)


section \<open>Properties of SuggestionPriority\<close>

lemma SuggestionPriority_lt_True:
  "(SuggestionPriority_lt a (Priority b) = RBool True) = (value_of a < value_of b)"
  by simp

lemma SuggestionPriority_gt_True:
  "(SuggestionPriority_gt a (Priority b) = RBool True) = (value_of b < value_of a)"
  by simp

lemma value_of_inj: "(value_of a = value_of b) = (a = b)"
  by (cases a; cases b) simp_all

text \<open>
  C4. The comparison methods realise the strict total order LOW < MEDIUM < HIGH < TOP on
  the members: TOP > LOW holds (as a method call and as an expression), \<open><\<close> is
  transitive, irreflexive and total, and \<open>a > b\<close> holds exactly when \<open>b < a\<close> does.
\<close>

theorem C4_priority_order:
  "SuggestionPriority_gt TOP (Priority LOW) = RBool True
   \<and> op_gt TOP (Priority LOW) reflected = RBool True
   \<and> SuggestionPriority_lt LOW (Priority MEDIUM) = RBool True
   \<and> SuggestionPriority_lt MEDIUM (Priority HIGH) = RBool True
   \<and> SuggestionPriority_lt HIGH (Priority TOP) = RBool True
   \<and> (SuggestionPriority_lt a (Priority b) = RBool True
        \<and> SuggestionPriority_lt b (Priority c) = RBool True
       \<longrightarrow> SuggestionPriority_lt a (Priority c) = RBool True)
   \<and> (SuggestionPriority_gt a (Priority b) = RBool True)
       = (SuggestionPriority_lt b (Priority a) = RBool True)
   \<and> SuggestionPriority_lt a (Priority a) = RBool False
   \<and> (a \<noteq> b \<longrightarrow> SuggestionPriority_lt a (Priority b) = RBool True
                \<or> SuggestionPriority_lt b (Priority a) = RBool True)"
proof -
  have total: "a \<noteq> b \<longrightarrow> value_of a < value_of b \<or> value_of b < value_of a"
    using value_of_inj [of a b] by linarith
  have expr: "op_gt TOP (Priority LOW) reflected = RBool True"
    by (simp add: op_gt_def)
  show ?thesis
    unfolding SuggestionPriority_lt_True SuggestionPriority_gt_True
    using total expr by simp
qed

text \<open>C4 at LOW, MEDIUM and TOP.\<close>

theorem C4_priority_order_witness:
  "SuggestionPriority_lt LOW (Priority MEDIUM) = RBool True
   \<and> SuggestionPriority_lt MEDIUM (Priority TOP) = RBool True
   \<and> SuggestionPriority_lt LOW (Priority TOP) = RBool True
   \<and> LOW \<noteq> MEDIUM
   \<and> SuggestionPriority_gt MEDIUM (Priority LOW) = RBool True"
  using C4_priority_order [of RNone LOW MEDIUM TOP] by simp

text \<open>
  C10. For every priority \<open>p\<close> and every operand \<open>x\<close> that is not a SuggestionPriority,
  \<open>__gt__\<close> and \<open>__lt__\<close> return None, which is neither False nor NotImplemented; so the
  expressions \<open>p > x\<close> and \<open>p < x\<close> are None whatever the reflected method of \<open>x\<close> would
  answer: the other operand is never asked.
\<close>

theorem C10_non_priority_operand:
  "\<not> isinstance_SuggestionPriority x \<Longrightarrow>
     SuggestionPriority_gt p x = RNone \<and> SuggestionPriority_lt p x = RNone
     \<and> SuggestionPriority_gt p x \<noteq> RBool False \<and> SuggestionPriority_gt p x \<noteq> RNotImplemented
     \<and> SuggestionPriority_lt p x \<noteq> RBool False \<and> SuggestionPriority_lt p x \<noteq> RNotImplemented
     \<and> op_gt p x reflected = RNone \<and> op_lt p x reflected = RNone"
  by (cases x) (simp_all add: op_gt_def op_lt_def)

text \<open>C10 at the comparison of TOP with the integer 3.\<close>

theorem C10_non_priority_operand_witness:
  "\<not> isinstance_SuggestionPriority (Plain (PyInt 3))
   \<and> SuggestionPriority_gt TOP (Plain (PyInt 3)) = RNone
   \<and> SuggestionPriority_lt TOP (Plain (PyInt 3)) = RNone
   \<and> op_gt TOP (Plain (PyInt 3)) (RBool True) = RNone
   \<and> op_lt TOP (Plain (PyInt 3)) (RBool False) = RNone"
  using C10_non_priority_operand [of "Plain (PyInt 3)" TOP "RBool True"]
    C10_non_priority_operand [of "Plain (PyInt 3)" TOP "RBool False"]
  by simp

section \<open>Properties of structural equality and hashing\<close>

lemma py_eq_refl: "py_eq v v"
  by (induction v) (auto simp: list_all2_same)

text \<open>The sum of the hashes in closed form: it exists exactly when every value is hashable.\<close>

lemma py_sum_hashes_eq:
  "py_sum_hashes h acc vs =
     (if list_all hashable vs then Inr (acc + sum_list (map h vs)) else Inl TypeError)"
  by (induction vs arbitrary: acc) (simp_all add: py_hash_def)

text \<open>
  Two dicts with the same attributes and values hold the same entries, in whatever order
  the attributes were assigned.
\<close>

lemma same_attributes_mset:
  assumes "distinct (map fst a)" "distinct (map fst b)" "map_of a = map_of b"
  shows "mset a = mset b"
proof -
  have "set a = set b"
    using assms by (simp add: map_of_inject_set)
  moreover have "distinct a" "distinct b"
    using assms(1,2) by (simp_all add: distinct_map)
  ultimately show ?thesis
    by (simp add: set_eq_iff_mset_eq_distinct)
qed

lemma py_sum_hashes_mset:
  assumes "mset vs = mset ws"
  shows "py_sum_hashes h acc vs = py_sum_hashes h acc ws"
proof -
  have "set vs = set ws"
    using assms by (rule mset_eq_setD)
  then have "list_all hashable vs = list_all hashable ws"
    by (simp add: list_all_iff)
  moreover have "sum_list (map h vs) = sum_list (map h ws)"
  proof -
    have "mset (map h vs) = mset (map h ws)"
      using assms by (metis mset_map)
    then show ?thesis
      by (metis sum_mset_sum_list)
  qed
  ultimately show ?thesis
    by (simp add: py_sum_hashes_eq)
qed

lemma dict_hash_same_attributes:
  assumes "distinct (map fst a)" "distinct (map fst b)" "map_of a = map_of b"
  shows "py_sum_hashes h 0 (dict_values a) = py_sum_hashes h 0 (dict_values b)"
proof -
  have "mset a = mset b"
    using assms by (rule same_attributes_mset)
  then have "mset (map snd a) = mset (map snd b)"
    by (metis mset_map)
  then show ?thesis
    unfolding dict_values_def by (rule py_sum_hashes_mset)
qed

lemma dict_eq_same_attributes:
  assumes "distinct (map fst a)" "distinct (map fst b)" "map_of a = map_of b"
  shows "dict_eq a b"
proof -
  have "mset a = mset b"
    using assms by (rule same_attributes_mset)
  then have len: "length a = length b"
    by (metis size_mset)
  have "case map_of b k of None \<Rightarrow> False | Some w \<Rightarrow> py_eq v w" if "(k, v) \<in> set a" for k v
  proof -
    have "map_of a k = Some v"
      using assms(1) that by simp
    then show ?thesis
      using assms(3) by (simp add: py_eq_refl)
  qed
  then show ?thesis
    using len by (auto simp: dict_eq_def list_all_iff)
qed

text \<open>The dicts the two constructors build.\<close>

lemma CustomSoftwareAction_init_dict:
  "CustomSoftwareAction_init x1 x2 x3 x4 x5 x6 x7 x8 x9 x10 x11 x12 =
     [(''i18n_label_key'', x1), (''i18n_status_key'', x2), (''icon_path'', x3),
      (''manager_method'', x4), (''requires_root'', x5), (''manager'', x6), (''backup'', x7),
      (''refresh'', x8), (''i18n_confirm_key'', x9), (''requires_internet'', x10),
      (''requires_confirmation'', x11), (''i18n_description_key'', x12)]"
  by (simp add: CustomSoftwareAction_init_def)

lemma PackageUpdate_init_dict:
  "PackageUpdate_init pkg_id v t n =
     [(''id'', pkg_id), (''name'', n), (''version'', v), (''type'', t)]"
  by (simp add: PackageUpdate_init_def)

text \<open>Equality of two constructed instances compares every field with \<^verbatim>\<open>==\<close>.\<close>

lemma CustomSoftwareAction_eq_fields:
  "CustomSoftwareAction_eq (CustomSoftwareAction_init x1 x2 x3 x4 x5 x6 x7 x8 x9 x10 x11 x12)
     (Action (CustomSoftwareAction_init y1 y2 y3 y4 y5 y6 y7 y8 y9 y10 y11 y12)) =
   (py_eq x1 y1 \<and> py_eq x2 y2 \<and> py_eq x3 y3 \<and> py_eq x4 y4 \<and> py_eq x5 y5 \<and> py_eq x6 y6
    \<and> py_eq x7 y7 \<and> py_eq x8 y8 \<and> py_eq x9 y9 \<and> py_eq x10 y10 \<and> py_eq x11 y11
    \<and> py_eq x12 y12)"
  by (simp add: CustomSoftwareAction_init_dict dict_eq_def)

lemma PackageUpdate_eq_fields:
  "PackageUpdate_eq (PackageUpdate_init i1 v1 t1 n1) (Update (PackageUpdate_init i2 v2 t2 n2)) =
   (py_eq i1 i2 \<and> py_eq n1 n2 \<and> py_eq v1 v2 \<and> py_eq t1 t2)"
  by (simp add: PackageUpdate_init_dict dict_eq_def)

text \<open>
  C3. Two CustomSoftwareAction instances \<open>a\<close>, \<open>b\<close> with the same attributes and values,
  and two PackageUpdate instances \<open>u\<close>, \<open>v\<close> with the same attributes and values, are
  equal, and \<open>__hash__\<close> gives the same on both: when the values are hashable, as the values
  of the annotated types are, the same integer, the sum of the hashes of the values. The
  order in which the attributes were assigned plays no part. Equality is structural: two
  constructed instances are equal exactly when each field of one equals the same field of
  the other.
\<close>

theorem C3_equal_fields_equal_hash:
  assumes "distinct (map fst a)" "distinct (map fst b)" "map_of a = map_of b"
    and "distinct (map fst u)" "distinct (map fst v)" "map_of u = map_of v"
  shows "CustomSoftwareAction_eq a (Action b)
    \<and> CustomSoftwareAction_hash h a = CustomSoftwareAction_hash h b
    \<and> (list_all hashable (dict_values a) \<longrightarrow>
         CustomSoftwareAction_hash h a = Inr (sum_list (map h (dict_values a)))
         \<and> CustomSoftwareAction_hash h b = Inr (sum_list (map h (dict_values a))))
    \<and> PackageUpdate_eq u (Update v)
    \<and> PackageUpdate_hash h u = PackageUpdate_hash h v
    \<and> (list_all hashable (dict_values u) \<longrightarrow>
         PackageUpdate_hash h u = Inr (sum_list (map h (dict_values u)))
         \<and> PackageUpdate_hash h v = Inr (sum_list (map h (dict_values u))))
    \<and> CustomSoftwareAction_eq
         (CustomSoftwareAction_init x1 x2 x3 x4 x5 x6 x7 x8 x9 x10 x11 x12)
         (Action (CustomSoftwareAction_init y1 y2 y3 y4 y5 y6 y7 y8 y9 y10 y11 y12))
       = (py_eq x1 y1 \<and> py_eq x2 y2 \<and> py_eq x3 y3 \<and> py_eq x4 y4 \<and> py_eq x5 y5 \<and> py_eq x6 y6
          \<and> py_eq x7 y7 \<and> py_eq x8 y8 \<and> py_eq x9 y9 \<and> py_eq x10 y10 \<and> py_eq x11 y11
          \<and> py_eq x12 y12)
    \<and> PackageUpdate_eq (PackageUpdate_init i1 v1 t1 n1)
         (Update (PackageUpdate_init i2 v2 t2 n2))
       = (py_eq i1 i2 \<and> py_eq n1 n2 \<and> py_eq v1 v2 \<and> py_eq t1 t2)"
proof -
  have eq_a: "CustomSoftwareAction_eq a (Action b)"
    unfolding CustomSoftwareAction_eq.simps using assms(1-3) by (rule dict_eq_same_attributes)
  have hash_a: "CustomSoftwareAction_hash h a = CustomSoftwareAction_hash h b"
    unfolding CustomSoftwareAction_hash_def using assms(1-3) by (rule dict_hash_same_attributes)
  have val_a: "CustomSoftwareAction_hash h a = Inr (sum_list (map h (dict_values a)))"
    if "list_all hashable (dict_values a)"
    using that by (simp add: CustomSoftwareAction_hash_def py_sum_hashes_eq)
  have eq_u: "PackageUpdate_eq u (Update v)"
    unfolding PackageUpdate_eq.simps using assms(4-6) by (rule dict_eq_same_attributes)
  have hash_u: "PackageUpdate_hash h u = PackageUpdate_hash h v"
    unfolding PackageUpdate_hash_def using assms(4-6) by (rule dict_hash_same_attributes)
  have val_u: "PackageUpdate_hash h u = Inr (sum_list (map h (dict_values u)))"
    if "list_all hashable (dict_values u)"
    using that by (simp add: PackageUpdate_hash_def py_sum_hashes_eq)
  have vals_a: "list_all hashable (dict_values a) \<longrightarrow>
         CustomSoftwareAction_hash h a = Inr (sum_list (map h (dict_values a)))
         \<and> CustomSoftwareAction_hash h b = Inr (sum_list (map h (dict_values a)))"
    using val_a hash_a by simp
  have vals_u: "list_all hashable (dict_values u) \<longrightarrow>
         PackageUpdate_hash h u = Inr (sum_list (map h (dict_values u)))
         \<and> PackageUpdate_hash h v = Inr (sum_list (map h (dict_values u)))"
    using val_u hash_u by simp
  show ?thesis
    by (intro conjI eq_a hash_a vals_a eq_u hash_u vals_u CustomSoftwareAction_eq_fields
        PackageUpdate_eq_fields)
qed

text \<open>
  C3 at two purge actions, the second with its description key assigned first, and at two
  updates of firefox, the second with its attributes assigned in the opposite order; every
  value hashes to 7.
\<close>

theorem C3_equal_fields_equal_hash_witness:
  "distinct (map fst
      (CustomSoftwareAction_init (PyStr ''action.purge'') (PyStr ''action.purge.status'')
         PyNone (PyStr ''purge'') (PyBool True) (PyRef 1) (PyBool False) (PyBool True) PyNone
         (PyBool False) (PyBool True) PyNone))
   \<and> distinct (map fst
       [(''i18n_description_key'', PyNone), (''i18n_label_key'', PyStr ''action.purge''),
        (''i18n_status_key'', PyStr ''action.purge.status''), (''icon_path'', PyNone),
        (''manager_method'', PyStr ''purge''), (''requires_root'', PyBool True),
        (''manager'', PyRef 1), (''backup'', PyBool False), (''refresh'', PyBool True),
        (''i18n_confirm_key'', PyNone), (''requires_internet'', PyBool False),
        (''requires_confirmation'', PyBool True)])
   \<and> map_of
       (CustomSoftwareAction_init (PyStr ''action.purge'') (PyStr ''action.purge.status'')
         PyNone (PyStr ''purge'') (PyBool True) (PyRef 1) (PyBool False) (PyBool True) PyNone
         (PyBool False) (PyBool True) PyNone)
     = map_of
       [(''i18n_description_key'', PyNone), (''i18n_label_key'', PyStr ''action.purge''),
        (''i18n_status_key'', PyStr ''action.purge.status''), (''icon_path'', PyNone),
        (''manager_method'', PyStr ''purge''), (''requires_root'', PyBool True),
        (''manager'', PyRef 1), (''backup'', PyBool False), (''refresh'', PyBool True),
        (''i18n_confirm_key'', PyNone), (''requires_internet'', PyBool False),
        (''requires_confirmation'', PyBool True)]
   \<and> distinct (map fst
       (PackageUpdate_init (PyStr ''firefox'') (PyStr ''119.0'') (PyStr ''snap'')
          (PyStr ''Firefox'')))
   \<and> distinct (map fst
       [(''type'', PyStr ''snap''), (''version'', PyStr ''119.0''), (''name'', PyStr ''Firefox''),
        (''id'', PyStr ''firefox'')])
   \<and> map_of
       (PackageUpdate_init (PyStr ''firefox'') (PyStr ''119.0'') (PyStr ''snap'')
          (PyStr ''Firefox''))
     = map_of
       [(''type'', PyStr ''snap''), (''version'', PyStr ''119.0''), (''name'', PyStr ''Firefox''),
        (''id'', PyStr ''firefox'')]
   \<and> CustomSoftwareAction_eq
       (CustomSoftwareAction_init (PyStr ''action.purge'') (PyStr ''action.purge.status'')
         PyNone (PyStr ''purge'') (PyBool True) (PyRef 1) (PyBool False) (PyBool True) PyNone
         (PyBool False) (PyBool True) PyNone)
       (Action
         [(''i18n_description_key'', PyNone), (''i18n_label_key'', PyStr ''action.purge''),
          (''i18n_status_key'', PyStr ''action.purge.status''), (''icon_path'', PyNone),
          (''manager_method'', PyStr ''purge''), (''requires_root'', PyBool True),
          (''manager'', PyRef 1), (''backup'', PyBool False), (''refresh'', PyBool True),
          (''i18n_confirm_key'', PyNone), (''requires_internet'', PyBool False),
          (''requires_confirmation'', PyBool True)])
   \<and> CustomSoftwareAction_hash (\<lambda>x. 7)
       (CustomSoftwareAction_init (PyStr ''action.purge'') (PyStr ''action.purge.status'')
         PyNone (PyStr ''purge'') (PyBool True) (PyRef 1) (PyBool False) (PyBool True) PyNone
         (PyBool False) (PyBool True) PyNone)
     = Inr 84
   \<and> CustomSoftwareAction_hash (\<lambda>x. 7)
       [(''i18n_description_key'', PyNone), (''i18n_label_key'', PyStr ''action.purge''),
        (''i18n_status_key'', PyStr ''action.purge.status''), (''icon_path'', PyNone),
        (''manager_method'', PyStr ''purge''), (''requires_root'', PyBool True),
        (''manager'', PyRef 1), (''backup'', PyBool False), (''refresh'', PyBool True),
        (''i18n_confirm_key'', PyNone), (''requires_internet'', PyBool False),
        (''requires_confirmation'', PyBool True)]
     = Inr 84
   \<and> PackageUpdate_eq
       (PackageUpdate_init (PyStr ''firefox'') (PyStr ''119.0'') (PyStr ''snap'')
          (PyStr ''Firefox''))
       (Update
         [(''type'', PyStr ''snap''), (''version'', PyStr ''119.0''),
          (''name'', PyStr ''Firefox''), (''id'', PyStr ''firefox'')])
   \<and> PackageUpdate_hash (\<lambda>x. 7)
       (PackageUpdate_init (PyStr ''firefox'') (PyStr ''119.0'') (PyStr ''snap'')
          (PyStr ''Firefox''))
     = Inr 28
   \<and> PackageUpdate_hash (\<lambda>x. 7)
       [(''type'', PyStr ''snap''), (''version'', PyStr ''119.0''), (''name'', PyStr ''Firefox''),
        (''id'', PyStr ''firefox'')]
     = Inr 28"
proof -
  let ?a = "CustomSoftwareAction_init (PyStr ''action.purge'') (PyStr ''action.purge.status'')
         PyNone (PyStr ''purge'') (PyBool True) (PyRef 1) (PyBool False) (PyBool True) PyNone
         (PyBool False) (PyBool True) PyNone"
  let ?b = "[(''i18n_description_key'', PyNone), (''i18n_label_key'', PyStr ''action.purge''),
        (''i18n_status_key'', PyStr ''action.purge.status''), (''icon_path'', PyNone),
        (''manager_method'', PyStr ''purge''), (''requires_root'', PyBool True),
        (''manager'', PyRef 1), (''backup'', PyBool False), (''refresh'', PyBool True),
        (''i18n_confirm_key'', PyNone), (''requires_internet'', PyBool False),
        (''requires_confirmation'', PyBool True)]"
  let ?u = "PackageUpdate_init (PyStr ''firefox'') (PyStr ''119.0'') (PyStr ''snap'')
          (PyStr ''Firefox'')"
  let ?v = "[(''type'', PyStr ''snap''), (''version'', PyStr ''119.0''),
        (''name'', PyStr ''Firefox''), (''id'', PyStr ''firefox'')]"
  have da: "distinct (map fst ?a)" and db: "distinct (map fst ?b)"
    by (simp_all add: CustomSoftwareAction_init_dict)
  have mab: "map_of ?a = map_of ?b"
    by (rule ext) (simp add: CustomSoftwareAction_init_dict)
  have du: "distinct (map fst ?u)" and dv: "distinct (map fst ?v)"
    by (simp_all add: PackageUpdate_init_dict)
  have muv: "map_of ?u = map_of ?v"
    by (rule ext) (simp add: PackageUpdate_init_dict)
  have ha: "list_all hashable (dict_values ?a)" "sum_list (map (\<lambda>x. 7) (dict_values ?a)) = (84::int)"
    by (simp_all add: CustomSoftwareAction_init_dict dict_values_def)
  have hu: "list_all hashable (dict_values ?u)" "sum_list (map (\<lambda>x. 7) (dict_values ?u)) = (28::int)"
    by (simp_all add: PackageUpdate_init_dict dict_values_def)
  have main: "CustomSoftwareAction_eq ?a (Action ?b)
    \<and> CustomSoftwareAction_hash (\<lambda>x. 7) ?a = Inr 84
    \<and> CustomSoftwareAction_hash (\<lambda>x. 7) ?b = Inr 84
    \<and> PackageUpdate_eq ?u (Update ?v)
    \<and> PackageUpdate_hash (\<lambda>x. 7) ?u = Inr 28
    \<and> PackageUpdate_hash (\<lambda>x. 7) ?v = Inr 28"
    using C3_equal_fields_equal_hash [OF da db mab du dv muv, of "\<lambda>x. 7"] ha hu
    by (simp only: simp_thms)
  show ?thesis
    using da db mab du dv muv main by (simp only: simp_thms)
qed


section \<open>Where the operations raise\<close>

lemma length_str_split: "length (str_split sep piece s) = Suc (count_list s sep)"
  by (induction s arbitrary: piece) simp_all

text \<open>
  C7, as stated, fails. A subclass of SoftwarePackage that a script defines has the module
  name \<^verbatim>\<open>__main__\<close>, which has one segment, and its constructor raises IndexError at the
  third segment; and the hash of an action whose icon path is a list raises TypeError.
\<close>

theorem C7_operations_can_raise:
  "SoftwarePackage_init ''__main__'' None None None None None None READY False False None None
     None = Inl IndexError
   \<and> CustomSoftwareAction_hash (\<lambda>v. 0)
       (CustomSoftwareAction_init (PyStr ''action.purge'') (PyStr ''action.purge.status'')
          (PyList [PyStr ''purge.svg'']) (PyStr ''purge'') (PyBool True) PyNone (PyBool False)
          (PyBool True) PyNone (PyBool False) (PyBool True) PyNone)
     = Inl TypeError"
  by (simp add: SoftwarePackage_init_def py_index_def CustomSoftwareAction_hash_def
      CustomSoftwareAction_init_dict dict_values_def py_hash_def)

text \<open>
  C7, amended. The constructor of SoftwarePackage raises IndexError exactly when the dotted
  name of the module of the instance's class has fewer than two dots, that is fewer than
  three segments; otherwise it completes, with the arguments as attributes and the third
  segment as \<open>gem_name\<close>. The \<open>__hash__\<close> of a CustomSoftwareAction and of a PackageUpdate
  raise TypeError exactly when an attribute holds an unhashable value; otherwise they return
  the sum of the hashes of the values.
\<close>

theorem C7_where_operations_raise:
  "SoftwarePackage_init m a1 a2 a3 a4 a5 a6 a7 a8 a9 a10 a11 a12 =
     (if count_list m (CHR ''.'') < 2 then Inl IndexError
      else Inr \<lparr>id_attr = a1, name = a3, description = a4, status = a7, version = a2,
             latest_version = a5, icon_url = a6, installed = a8, update = a9, size_attr = a10,
             categories = a11, license = a12, gem_name = str_split (CHR ''.'') [] m ! 2\<rparr>)
   \<and> CustomSoftwareAction_hash h a =
       (if list_all hashable (dict_values a) then Inr (sum_list (map h (dict_values a)))
        else Inl TypeError)
   \<and> PackageUpdate_hash h u =
       (if list_all hashable (dict_values u) then Inr (sum_list (map h (dict_values u)))
        else Inl TypeError)"
  by (auto simp: SoftwarePackage_init_def py_index_def length_str_split
      CustomSoftwareAction_hash_def PackageUpdate_hash_def py_sum_hashes_eq)

text \<open>C7 at the module of the arch gem, whose third segment is the gem's name.\<close>

theorem C7_where_operations_raise_witness:
  "SoftwarePackage_init ''bauh.gems.arch.model'' (Some ''vim'') None (Some ''vim'') None None None
     READY True False None None None =
     Inr \<lparr>id_attr = Some ''vim'', name = Some ''vim'', description = None, status = READY,
          version = None, latest_version = None, icon_url = None, installed = True,
          update = False, size_attr = None, categories = None, license = None,
          gem_name = ''arch''\<rparr>
   \<and> PackageUpdate_hash (\<lambda>x. 7)
       (PackageUpdate_init (PyStr ''firefox'') (PyStr ''119.0'') (PyStr ''snap'')
          (PyStr ''Firefox''))
     = Inr 28"
  using C7_where_operations_raise [of "''bauh.gems.arch.model''" "Some ''vim''" None
      "Some ''vim''" None None None READY True False None None None "\<lambda>x. 7" "[]"
      "PackageUpdate_init (PyStr ''firefox'') (PyStr ''119.0'') (PyStr ''snap'')
         (PyStr ''Firefox'')"]
  by (simp add: PackageUpdate_init_dict dict_values_def)

end
